theory Spec2Isabelle
  imports Complex_Main "HOL-Library.Sublist"
begin

section \<open>JavaScript numbers\<close>

text \<open>
  The service adds and subtracts prices with the arithmetic of JavaScript numbers and
  prints the total inside a template literal. A number is an IEEE 754 double: a finite
  value (kept as the rational it denotes), an infinity, or \<^verbatim>\<open>NaN\<close>. The two zeros are one
  value here: the service only adds, subtracts, tests for truthiness and prints, and
  none of these tells them apart.
\<close>

datatype number = Finite rat | PosInfinity | NegInfinity | NaN

subsection \<open>Rounding to the nearest double\<close>

function bitLength :: "int \<Rightarrow> int" where
  "bitLength n = (if n \<le> 0 then 0 else 1 + bitLength (n div 2))"
  by pat_completeness auto
termination
  by (relation "measure nat") auto

declare bitLength.simps [simp del]

function digitCount :: "int \<Rightarrow> int" where
  "digitCount n = (if n \<le> 0 then 0 else 1 + digitCount (n div 10))"
  by pat_completeness auto
termination
  by (relation "measure nat") auto

declare digitCount.simps [simp del]

definition pow2 :: "int \<Rightarrow> rat" where
  "pow2 e = (if 0 \<le> e then 2 ^ nat e else 1 / 2 ^ nat (- e))"

definition pow10 :: "int \<Rightarrow> rat" where
  "pow10 e = (if 0 \<le> e then 10 ^ nat e else 1 / 10 ^ nat (- e))"

text \<open>For a positive \<open>a\<close>: the \<open>e\<close> with \<open>2 ^ e \<le> a < 2 ^ (e + 1)\<close>.\<close>

definition floorLog2 :: "rat \<Rightarrow> int" where
  "floorLog2 a = (if 1 \<le> a then bitLength \<lfloor>a\<rfloor> - 1 else - bitLength (\<lceil>1 / a\<rceil> - 1))"

text \<open>For a positive \<open>a\<close>: the \<open>n\<close> with \<open>10 ^ (n - 1) \<le> a < 10 ^ n\<close>.\<close>

definition decimalExponent :: "rat \<Rightarrow> int" where
  "decimalExponent a = (if 1 \<le> a then digitCount \<lfloor>a\<rfloor> else 1 - digitCount (\<lceil>1 / a\<rceil> - 1))"

definition tieToEven :: "int \<Rightarrow> rat \<Rightarrow> int" where
  "tieToEven f m =
     (if m - of_int f < 1 / 2 then f
      else if 1 / 2 < m - of_int f then f + 1
      else if even f then f else f + 1)"

definition roundHalfEven :: "rat \<Rightarrow> int" where
  "roundHalfEven m = tieToEven \<lfloor>m\<rfloor> m"

text \<open>
  The exponent of the last mantissa bit of a double with binary exponent \<open>e\<close>: 52 bits
  below \<open>e\<close> for a normal number, \<open>-1074\<close> for a subnormal one.
\<close>

definition quantum :: "int \<Rightarrow> int" where
  "quantum e = (if e < - 1022 then - 1074 else e - 52)"

definition quantize :: "rat \<Rightarrow> rat \<Rightarrow> rat" where
  "quantize a u = of_int (roundHalfEven (a / u)) * u"

definition roundMagnitude :: "rat \<Rightarrow> rat" where
  "roundMagnitude a = quantize a (pow2 (quantum (floorLog2 a)))"

definition fromMagnitude :: "bool \<Rightarrow> rat \<Rightarrow> number" where
  "fromMagnitude negative v =
     (if pow2 1024 \<le> v then (if negative then NegInfinity else PosInfinity)
      else Finite (if negative then - v else v))"

text \<open>Round to nearest, ties to even; a magnitude that rounds to \<open>2 ^ 1024\<close> overflows.\<close>

definition roundDouble :: "rat \<Rightarrow> number" where
  "roundDouble r = (if r = 0 then Finite 0 else fromMagnitude (r < 0) (roundMagnitude \<bar>r\<bar>))"

text \<open>The number a decimal literal of the source denotes.\<close>

definition numberOf :: "rat \<Rightarrow> number" where
  "numberOf r = roundDouble r"

subsection \<open>Addition, subtraction, truthiness\<close>

fun negNumber :: "number \<Rightarrow> number" where
  "negNumber (Finite r) = Finite (- r)"
| "negNumber PosInfinity = NegInfinity"
| "negNumber NegInfinity = PosInfinity"
| "negNumber NaN = NaN"

fun addNumber :: "number \<Rightarrow> number \<Rightarrow> number" where
  "addNumber NaN y = NaN"
| "addNumber x NaN = NaN"
| "addNumber PosInfinity NegInfinity = NaN"
| "addNumber NegInfinity PosInfinity = NaN"
| "addNumber PosInfinity y = PosInfinity"
| "addNumber NegInfinity y = NegInfinity"
| "addNumber x PosInfinity = PosInfinity"
| "addNumber x NegInfinity = NegInfinity"
| "addNumber (Finite a) (Finite b) = roundDouble (a + b)"

definition subNumber :: "number \<Rightarrow> number \<Rightarrow> number" where
  "subNumber x y = addNumber x (negNumber y)"

text \<open>\<^verbatim>\<open>if (x)\<close> on a number: zero and \<^verbatim>\<open>NaN\<close> are falsy.\<close>

fun truthy :: "number \<Rightarrow> bool" where
  "truthy (Finite r) = (r \<noteq> 0)"
| "truthy NaN = False"
| "truthy x = True"

subsection \<open>Number to string\<close>

text \<open>
  \<^verbatim>\<open>Number::toString\<close> of ECMAScript, radix 10: take the digits \<open>s\<close> (as few as
  possible, at most seventeen) and the exponent \<open>n\<close> such that \<open>s * 10 ^ (n - k)\<close>, with
  \<open>k\<close> the number of digits of \<open>s\<close>, rounds to the number; among several such \<open>s\<close> the one
  closest to the number. Then print plain digits for \<open>k \<le> n \<le> 21\<close>, a decimal point
  inside for \<open>0 < n \<le> 21\<close>, leading zeros for \<open>-6 < n \<le> 0\<close>, and exponent notation
  otherwise.
\<close>

text \<open>The character of a decimal digit \<open>0 \<le> d \<le> 9\<close>; no other argument occurs.\<close>

definition digitChar :: "int \<Rightarrow> char" where
  "digitChar d = ''0123456789'' ! nat d"

function natDigits :: "int \<Rightarrow> string" where
  "natDigits n = (if n < 10 then [digitChar n] else natDigits (n div 10) @ [digitChar (n mod 10)])"
  by pat_completeness auto
termination
  by (relation "measure nat") auto

declare natDigits.simps [simp del]

definition roundsTo :: "rat \<Rightarrow> rat \<Rightarrow> bool" where
  "roundsTo c a = (roundDouble c = Finite a)"

definition normalise :: "int \<Rightarrow> nat \<Rightarrow> int \<Rightarrow> int \<times> int" where
  "normalise s k n = (if s = 10 ^ k then (1, n + 1) else (s, n))"

definition decide ::
  "bool \<Rightarrow> bool \<Rightarrow> int \<Rightarrow> rat \<Rightarrow> rat \<Rightarrow> nat \<Rightarrow> int \<Rightarrow> (int \<times> int) option" where
  "decide okLo okHi lo dLo dHi k n =
     (if okLo \<and> okHi
      then Some (normalise (if dLo < dHi then lo else if dHi < dLo then lo + 1
                            else if even lo then lo else lo + 1) k n)
      else if okLo then Some (normalise lo k n)
      else if okHi then Some (normalise (lo + 1) k n)
      else None)"

definition between :: "int \<Rightarrow> rat \<Rightarrow> rat \<Rightarrow> nat \<Rightarrow> int \<Rightarrow> (int \<times> int) option" where
  "between lo scale a k n =
     decide (roundsTo (of_int lo * scale) a) (roundsTo (of_int (lo + 1) * scale) a)
       lo (a - of_int lo * scale) (of_int (lo + 1) * scale - a) k n"

text \<open>The \<open>k\<close>-digit decimals next to \<open>a\<close>, below and above, if one of them rounds to \<open>a\<close>.\<close>

definition candidate :: "nat \<Rightarrow> int \<Rightarrow> rat \<Rightarrow> (int \<times> int) option" where
  "candidate k n a = between \<lfloor>a / pow10 (n - int k)\<rfloor> (pow10 (n - int k)) a k n"

function shortest :: "nat \<Rightarrow> int \<Rightarrow> rat \<Rightarrow> int \<times> int" where
  "shortest k n a =
     (if 17 \<le> k then (roundHalfEven (a / pow10 (n - int k)), n)
      else (case candidate k n a of
              Some found \<Rightarrow> found
            | None \<Rightarrow> shortest (Suc k) n a))"
  by pat_completeness auto
termination
  by (relation "measure (\<lambda>(k, n, a). 17 - k)") auto

declare shortest.simps [simp del]

definition exponentPart :: "int \<Rightarrow> string" where
  "exponentPart e = ''e'' @ (if e < 0 then ''-'' else ''+'') @ natDigits \<bar>e\<bar>"

definition formatDigits :: "string \<Rightarrow> int \<Rightarrow> string" where
  "formatDigits ds n =
     (if int (length ds) \<le> n \<and> n \<le> 21
      then ds @ replicate (nat (n - int (length ds))) (CHR ''0'')
      else if 0 < n \<and> n \<le> 21 then take (nat n) ds @ ''.'' @ drop (nat n) ds
      else if - 6 < n \<and> n \<le> 0 then ''0.'' @ replicate (nat (- n)) (CHR ''0'') @ ds
      else if length ds = 1 then ds @ exponentPart (n - 1)
      else take 1 ds @ ''.'' @ drop 1 ds @ exponentPart (n - 1))"

definition formatShortest :: "int \<times> int \<Rightarrow> string" where
  "formatShortest sn = formatDigits (natDigits (fst sn)) (snd sn)"

fun numberToString :: "number \<Rightarrow> string" where
  "numberToString NaN = ''NaN''"
| "numberToString PosInfinity = ''Infinity''"
| "numberToString NegInfinity = ''-Infinity''"
| "numberToString (Finite r) =
     (if r = 0 then ''0''
      else (if r < 0 then ''-'' else [])
           @ formatShortest (shortest 1 (decimalExponent \<bar>r\<bar>) \<bar>r\<bar>))"

section \<open>Data model\<close>

text \<open>
  The checkout service of \<^verbatim>\<open>modules/shopping/services/checkout.ts\<close> keeps a cart of
  items, looks scanned SKUs up in an item repository and, on \<^verbatim>\<open>summary()\<close>, lets every
  registered promotion service append items to the cart before it renders the report.
  Optional fields are options.
\<close>

record item =
  sku :: string
  name :: string
  price :: "number option"
  discount :: "number option"

record promotionRuleItem = item +
  bundleItems :: "item list"
  minimumQuantity :: nat

text \<open>
  An error object that a repository reports. The service tests it with \<^verbatim>\<open>isEmpty\<close> of
  lodash, which looks at the own enumerable string-keyed properties of an object only:
  the value carries their names, besides the message. An instance of \<^verbatim>\<open>Error\<close> has none
  (\<^verbatim>\<open>message\<close> and \<^verbatim>\<open>stack\<close> are not enumerable) unless its class or its creator adds
  some.
\<close>

datatype reportedError = ErrorObject string "string list"

fun ownEnumerableKeys :: "reportedError \<Rightarrow> string list" where
  "ownEnumerableKeys (ErrorObject message keys) = keys"

text \<open>
  The errors in an output of the service: the three kinds it creates itself, and an
  error object taken over from the repository.
\<close>

datatype error = InvalidInputError | ItemNotFoundError | EmptyCartError | Reported reportedError

text \<open>The envelope \<^verbatim>\<open>Output<T>\<close>: both fields may be absent.\<close>

record ('a, 'e) Output =
  data :: "'a option"
  error :: "'e option"

text \<open>
  Collaborators. A promotion service exposes \<^verbatim>\<open>apply(items): Item[]\<close>, a repository
  \<^verbatim>\<open>selectOne(sku): Output<Item>\<close>. Both are code the service does not control, and
  every public method of the service wraps its body in \<^verbatim>\<open>try/catch\<close>: a call that
  throws is the value \<open>None\<close>.
\<close>

type_synonym promotionService = "item list \<Rightarrow> item list option"

type_synonym itemRepository = "string \<Rightarrow> (item, reportedError) Output option"

text \<open>The private fields of \<^verbatim>\<open>MainCheckoutService\<close>.\<close>

record session =
  items :: "item list"
  itemRepository :: itemRepository
  promotionServices :: "promotionService list"

text \<open>
  The argument of \<^verbatim>\<open>scan\<close> is typed \<^verbatim>\<open>string\<close>, but the tests also pass \<^verbatim>\<open>null\<close> and
  \<^verbatim>\<open>undefined\<close>.
\<close>

datatype skuArg = JsUndefined | JsNull | JsString string

section \<open>The checkout service\<close>

definition newCheckout :: "promotionService list \<Rightarrow> itemRepository \<Rightarrow> session" where
  "newCheckout ps repo = \<lparr>items = [], itemRepository = repo, promotionServices = ps\<rparr>"

text \<open>
  \<^verbatim>\<open>isEmpty(selectItemOutput.error)\<close>: \<^verbatim>\<open>undefined\<close> is empty, and so is an error
  object without own enumerable properties.
\<close>

definition isEmpty :: "reportedError option \<Rightarrow> bool" where
  "isEmpty v = (case v of None \<Rightarrow> True | Some e \<Rightarrow> ownEnumerableKeys e = [])"

subsection \<open>clear\<close>

definition clear :: "session \<Rightarrow> (bool, error) Output \<times> session" where
  "clear s =
     (let output = \<lparr>data = Some False, error = None\<rparr>;
          s' = s\<lparr>items := []\<rparr>;
          output = output\<lparr>data := Some True\<rparr>
      in (output, s'))"

subsection \<open>scan\<close>

text \<open>
  \<^verbatim>\<open>!itemSKU\<close>: the falsy arguments are \<^verbatim>\<open>undefined\<close>, \<^verbatim>\<open>null\<close> and the empty string.
  A repository call that throws is caught and leaves the initial output. The second
  test, \<^verbatim>\<open>isEmpty(selectItemOutput?.data)\<close>, is on an item: an item has the properties
  \<^verbatim>\<open>sku\<close>, \<^verbatim>\<open>name\<close> and \<^verbatim>\<open>price\<close>, so it is empty exactly when it is absent.
\<close>

fun falsy :: "skuArg \<Rightarrow> bool" where
  "falsy JsUndefined = True"
| "falsy JsNull = True"
| "falsy (JsString k) = (k = [])"

fun stringOf :: "skuArg \<Rightarrow> string" where
  "stringOf (JsString k) = k"
| "stringOf _ = []"

definition scan :: "skuArg \<Rightarrow> session \<Rightarrow> (bool, error) Output \<times> session" where
  "scan itemSKU s =
     (let output = \<lparr>data = Some False, error = None\<rparr> in
      if falsy itemSKU then (output\<lparr>error := Some InvalidInputError\<rparr>, s)
      else
        (case itemRepository s (stringOf itemSKU) of
           None \<Rightarrow> (output, s)
         | Some selectItemOutput \<Rightarrow>
             if \<not> isEmpty (error selectItemOutput)
             then (output\<lparr>error := map_option Reported (error selectItemOutput)\<rparr>, s)
             else
               (case data selectItemOutput of
                  None \<Rightarrow> (output\<lparr>error := Some ItemNotFoundError\<rparr>, s)
                | Some found \<Rightarrow>
                    (output\<lparr>data := Some True\<rparr>, s\<lparr>items := items s @ [found]\<rparr>))))"

subsection \<open>summary\<close>

text \<open>
  The promotion loop \<^verbatim>\<open>for (const p of services) items.push(...p.apply(items))\<close>.
  \<open>Inr\<close> carries the cart when every service returned, \<open>Inl\<close> the cart as it stood when a
  service threw: the spread argument is evaluated before \<^verbatim>\<open>push\<close> runs, so the items of
  the earlier services are already in the cart and nothing of the failing one is.
\<close>

fun applyPromotions :: "promotionService list \<Rightarrow> item list \<Rightarrow> item list + item list" where
  "applyPromotions [] its = Inr its"
| "applyPromotions (p # ps) its =
     (case p its of
        None \<Rightarrow> Inl its
      | Some out \<Rightarrow> applyPromotions ps (its @ out))"

text \<open>
  \<^verbatim>\<open>items.map(item => { if (item?.sku) return item.sku }).join(', ')\<close>: an item whose
  SKU is falsy maps to \<^verbatim>\<open>undefined\<close>, which \<^verbatim>\<open>join\<close> renders as the empty string.
\<close>

definition skuOrUndefined :: "item \<Rightarrow> string option" where
  "skuOrUndefined it = (if sku it \<noteq> [] then Some (sku it) else None)"

fun joinElem :: "string option \<Rightarrow> string" where
  "joinElem None = []"
| "joinElem (Some t) = t"

fun join :: "string \<Rightarrow> string option list \<Rightarrow> string" where
  "join sep [] = []"
| "join sep [x] = joinElem x"
| "join sep (x # y # ys) = joinElem x @ sep @ join sep (y # ys)"

text \<open>
  The reducer: \<^verbatim>\<open>if (currentItem.price) modifier += currentItem.price\<close>, and the same
  with \<^verbatim>\<open>-=\<close> for the discount. A field that is absent or falsy adds nothing.
\<close>

definition itemsReducer :: "number \<Rightarrow> item \<Rightarrow> number" where
  "itemsReducer priceAccumulator currentItem =
     (let modifier = Finite 0;
          modifier = (case price currentItem of
                        Some p \<Rightarrow> if truthy p then addNumber modifier p else modifier
                      | None \<Rightarrow> modifier);
          modifier = (case discount currentItem of
                        Some d \<Rightarrow> if truthy d then subNumber modifier d else modifier
                      | None \<Rightarrow> modifier)
      in addNumber priceAccumulator modifier)"

definition report :: "item list \<Rightarrow> string" where
  "report its =
     (let itemSKUs = join '', '' (map skuOrUndefined its);
          totalPrice = foldl itemsReducer (Finite 0) its;
          scannedItems = ''SKUs Scanned: '' @ itemSKUs;
          total = ''Total expected: $'' @ numberToString totalPrice
      in scannedItems @ [CHR 0x0A] @ total)"

definition summary :: "session \<Rightarrow> (string, error) Output \<times> session" where
  "summary s =
     (let output = \<lparr>data = None, error = None\<rparr> in
      if items s = [] then (output\<lparr>error := Some EmptyCartError\<rparr>, s)
      else
        (case (if promotionServices s \<noteq> []
               then applyPromotions (promotionServices s) (items s)
               else Inr (items s)) of
           Inl its \<Rightarrow> (output, s\<lparr>items := its\<rparr>)
         | Inr its \<Rightarrow> (output\<lparr>data := Some (report its)\<rparr>, s\<lparr>items := its\<rparr>)))"

section \<open>Collaborators described by the specification\<close>

subsection \<open>The mock item repository\<close>

text \<open>
  Modelled from the spec: \<^verbatim>\<open>MockItemRepository\<close> (\<^verbatim>\<open>item/repositories/mock\<close>) is not
  part of the sources at hand. The specification describes it as a mapping from SKU to
  item: \<^verbatim>\<open>insertMany\<close> inserts all given items keyed by SKU, overwriting on a duplicate
  SKU, and returns \<open>data = true\<close>; \<^verbatim>\<open>selectOne\<close> returns the stored item, and for an
  unknown SKU an output with no data and no error.
\<close>

type_synonym itemStore = "string \<rightharpoonup> item"

fun insertAll :: "item list \<Rightarrow> itemStore \<Rightarrow> itemStore" where
  "insertAll [] store = store"
| "insertAll (it # its) store = insertAll its (store(sku it \<mapsto> it))"

definition insertMany :: "item list \<Rightarrow> itemStore \<Rightarrow> (bool, error) Output \<times> itemStore" where
  "insertMany its store = (\<lparr>data = Some True, error = None\<rparr>, insertAll its store)"

definition selectOne :: "itemStore \<Rightarrow> itemRepository" where
  "selectOne store k = Some \<lparr>data = store k, error = None\<rparr>"

subsection \<open>The bundle promotion service\<close>

text \<open>
  Modelled from the spec: \<^verbatim>\<open>BundlePromotionService\<close> (\<^verbatim>\<open>promotion/services/bundle\<close>) is
  not part of the sources at hand. The specification describes \<^verbatim>\<open>apply(cart)\<close> as: for
  each rule, count the occurrences of the rule's SKU in the cart, compute
  \<open>qualifyingGroups = floor (count / minimumQuantity)\<close>, and for each qualifying group
  emit one copy of each of the rule's bundle items; the result is everything emitted, in
  rule order. A \<open>minimumQuantity\<close> below one is a misconfigured rule whose behaviour the
  specification leaves undefined: the model gives no result for it.
\<close>

definition countSku :: "string \<Rightarrow> item list \<Rightarrow> nat" where
  "countSku k cart = length (filter (\<lambda>it. sku it = k) cart)"

fun emitGroups :: "nat \<Rightarrow> item list \<Rightarrow> item list \<Rightarrow> item list" where
  "emitGroups 0 bundle emitted = emitted"
| "emitGroups (Suc g) bundle emitted = emitGroups g bundle (emitted @ bundle)"

fun bundleLoop :: "promotionRuleItem list \<Rightarrow> item list \<Rightarrow> item list \<Rightarrow> item list option" where
  "bundleLoop [] cart emitted = Some emitted"
| "bundleLoop (rule # rules) cart emitted =
     (if minimumQuantity rule < 1 then None
      else (let count = countSku (sku rule) cart;
                qualifyingGroups = count div minimumQuantity rule
            in bundleLoop rules cart (emitGroups qualifyingGroups (bundleItems rule) emitted)))"

definition bundleApply :: "promotionRuleItem list \<Rightarrow> promotionService" where
  "bundleApply rules cart = bundleLoop rules cart []"

section \<open>Fixtures of the test suite\<close>

text \<open>
  The items, the bundle rule and the service that \<^verbatim>\<open>checkout.test.ts\<close> sets up. The
  prices 1, 2, 0.5 and 0 are doubles as they stand; 1.99 and 0.99 are not, and the
  literals denote the nearest doubles.
\<close>

definition price199 :: number where
  "price199 = numberOf (199 / 100)"

definition price099 :: number where
  "price099 = numberOf (99 / 100)"

definition promotionRuleItem1 :: item where
  "promotionRuleItem1 =
     \<lparr>sku = ''p01'', name = ''valid-name-p1'', price = Some (Finite 1), discount = None\<rparr>"

definition promotionRuleItem2 :: item where
  "promotionRuleItem2 =
     \<lparr>sku = ''p02'', name = ''valid-name-p2'', price = Some (Finite (1 / 2)), discount = None\<rparr>"

definition testRule :: promotionRuleItem where
  "testRule =
     \<lparr>sku = ''p01'', name = ''valid-name-p1'', price = Some (Finite 1), discount = None,
      bundleItems = [promotionRuleItem2\<lparr>price := Some (Finite 0)\<rparr>], minimumQuantity = 2\<rparr>"

definition itemT01 :: item where
  "itemT01 = \<lparr>sku = ''t01'', name = ''valid-name'', price = Some price199, discount = None\<rparr>"

definition itemT02 :: item where
  "itemT02 = \<lparr>sku = ''t02'', name = ''valid-name'', price = Some (Finite 2), discount = None\<rparr>"

definition itemT04 :: item where
  "itemT04 = \<lparr>sku = ''t04'', name = ''valid-name'', price = Some price099, discount = None\<rparr>"

text \<open>A second rule, used in examples: two \<open>p02\<close> earn a free \<open>t01\<close>.\<close>

definition secondRule :: promotionRuleItem where
  "secondRule =
     \<lparr>sku = ''p02'', name = ''valid-name-p2'', price = Some (Finite (1 / 2)), discount = None,
      bundleItems = [itemT01\<lparr>price := Some (Finite 0)\<rparr>], minimumQuantity = 2\<rparr>"

definition testStore :: itemStore where
  "testStore =
     snd (insertMany [itemT04]
       (snd (insertMany [itemT01, itemT02]
          (snd (insertMany [promotionRuleItem1, promotionRuleItem2] Map.empty)))))"

definition checkoutService :: session where
  "checkoutService = newCheckout [bundleApply [testRule]] (selectOne testStore)"

text \<open>
  Two more services for examples: one with a second bundle promotion registered after
  the first, one whose second promotion throws.
\<close>

definition twoPromotions :: session where
  "twoPromotions =
     newCheckout [bundleApply [testRule], bundleApply [secondRule]] (selectOne testStore)"

definition faultyPromotion :: session where
  "faultyPromotion = newCheckout [bundleApply [testRule], (\<lambda>cart. None)] (selectOne testStore)"

text \<open>
  Two repositories that report an \<^verbatim>\<open>Error\<close> without own enumerable properties, such as
  \<^verbatim>\<open>new Error('connection lost')\<close>: one without data, one together with an item.
\<close>

definition plainError :: reportedError where
  "plainError = ErrorObject ''connection lost'' []"

definition failingRepository :: itemRepository where
  "failingRepository k = Some \<lparr>data = None, error = Some plainError\<rparr>"

definition inconsistentRepository :: itemRepository where
  "inconsistentRepository k = Some \<lparr>data = Some promotionRuleItem1, error = Some plainError\<rparr>"

text \<open>Running a sequence of scans, as the tests do, keeping the state only.\<close>

definition scanAll :: "string list \<Rightarrow> session \<Rightarrow> session" where
  "scanAll ks s = foldl (\<lambda>st k. snd (scan (JsString k) st)) s ks"

section \<open>The report as the specification words it\<close>

text \<open>
  The specification's reading of the report, to compare with \<open>report\<close>: the total is the
  sum over the items, in cart order, of the price (zero if absent) minus the discount
  (zero if absent), and the SKU list is the SKUs joined by a comma and a space. Sums and
  differences are those of JavaScript numbers.
\<close>

definition orZero :: "number option \<Rightarrow> number" where
  "orZero v = (case v of None \<Rightarrow> Finite 0 | Some x \<Rightarrow> x)"

definition sumNumbers :: "number list \<Rightarrow> number" where
  "sumNumbers xs = foldl addNumber (Finite 0) xs"

definition specTotal :: "item list \<Rightarrow> number" where
  "specTotal its = sumNumbers (map (\<lambda>it. subNumber (orZero (price it)) (orZero (discount it))) its)"

fun joinWith :: "string \<Rightarrow> string list \<Rightarrow> string" where
  "joinWith sep [] = []"
| "joinWith sep [x] = x"
| "joinWith sep (x # y # ys) = x @ sep @ joinWith sep (y # ys)"

text \<open>
  The amounts the data model allows in an item: a price or discount that is present is a
  double and is not \<^verbatim>\<open>NaN\<close>.
\<close>

fun isDouble :: "number \<Rightarrow> bool" where
  "isDouble (Finite r) = (roundDouble r = Finite r)"
| "isDouble x = True"

definition amountOk :: "number option \<Rightarrow> bool" where
  "amountOk v = (case v of None \<Rightarrow> True | Some x \<Rightarrow> isDouble x \<and> x \<noteq> NaN)"

definition pricedItem :: "item \<Rightarrow> bool" where
  "pricedItem it = (amountOk (price it) \<and> amountOk (discount it))"

section \<open>Results\<close>

subsection \<open>Evaluating numbers\<close>

text \<open>
  Floors and ceilings of rational numerals, and the equations that evaluate the number
  model on literals.
\<close>

lemma floor_rat_numeral: "\<lfloor>numeral a / numeral b :: rat\<rfloor> = numeral a div numeral b"
  by (metis floor_divide_of_int_eq of_int_numeral)

lemma floor_rat_one: "\<lfloor>1 / numeral b :: rat\<rfloor> = 1 div numeral b"
  by (metis floor_divide_of_int_eq of_int_numeral of_int_1)

lemma ceiling_rat_numeral: "\<lceil>numeral a / numeral b :: rat\<rceil> = - (- numeral a div numeral b)"
  unfolding ceiling_def
  by (metis divide_minus_left floor_divide_of_int_eq of_int_neg_numeral of_int_numeral)

lemma ceiling_rat_one: "\<lceil>1 / numeral b :: rat\<rceil> = - (- 1 div numeral b)"
  unfolding ceiling_def
  by (metis divide_minus_left floor_divide_of_int_eq of_int_minus of_int_numeral of_int_1)

lemmas number_eval =
  floor_rat_numeral floor_rat_one ceiling_rat_numeral ceiling_rat_one
  roundDouble_def fromMagnitude_def roundMagnitude_def quantize_def quantum_def
  roundHalfEven_def tieToEven_def floorLog2_def pow2_def bitLength.simps numberOf_def
  subNumber_def

lemma replicate_numeral: "replicate (numeral k) x = x # replicate (pred_numeral k) x"
  by (simp add: numeral_eq_Suc)

lemmas string_eval =
  replicate_numeral formatShortest_def formatDigits_def exponentPart_def natDigits.simps digitChar_def
  shortest.simps candidate_def between_def decide_def normalise_def roundsTo_def
  decimalExponent_def digitCount.simps pow10_def

lemma price199_value [code]: "price199 = Finite (8962163258467287 / 4503599627370496)"
  by (simp add: price199_def number_eval)

lemma price099_value [code]: "price099 = Finite (4458563631096791 / 4503599627370496)"
  by (simp add: price099_def number_eval)

text \<open>
  Sums that are not exact in doubles, and values at the limits of the notations.
\<close>

lemma numberToString_examples:
  "numberToString (addNumber (numberOf (1 / 10)) (numberOf (2 / 10))) = ''0.30000000000000004''"
  "numberToString (addNumber (addNumber (addNumber (Finite 0) price099) price099) price099)
     = ''2.9699999999999998''"
  "numberToString (subNumber (numberOf (3 / 10)) (numberOf (1 / 10))) = ''0.19999999999999998''"
  "numberToString (numberOf (10 ^ 21)) = ''1e+21''"
  "numberToString (numberOf (10 ^ 20)) = ''100000000000000000000''"
  "numberToString (numberOf (1 / 10 ^ 7)) = ''1e-7''"
  "numberToString (numberOf (1 / 10 ^ 6)) = ''0.000001''"
  "numberToString (numberOf (2 ^ 53 + 1)) = ''9007199254740992''"
  "numberToString (numberOf (- 5 / 4)) = ''-1.25''"
  by (simp_all add: price099_value number_eval string_eval)

subsection \<open>Auxiliary facts\<close>

lemma summary_unfold:
  "summary s =
     (if items s = [] then (\<lparr>data = None, error = Some EmptyCartError\<rparr>, s)
      else (case applyPromotions (promotionServices s) (items s) of
              Inl its \<Rightarrow> (\<lparr>data = None, error = None\<rparr>, s\<lparr>items := its\<rparr>)
            | Inr its \<Rightarrow> (\<lparr>data = Some (report its), error = None\<rparr>, s\<lparr>items := its\<rparr>)))"
  by (cases "promotionServices s") (simp_all add: summary_def Let_def split: sum.splits option.splits)

lemma summary_run:
  "items s = cart \<Longrightarrow> cart \<noteq> [] \<Longrightarrow> applyPromotions (promotionServices s) cart = Inr its \<Longrightarrow>
   summary s = (\<lparr>data = Some (report its), error = None\<rparr>, s\<lparr>items := its\<rparr>)"
  by (simp add: summary_unfold)

lemma summary_fault:
  "items s = cart \<Longrightarrow> cart \<noteq> [] \<Longrightarrow> applyPromotions (promotionServices s) cart = Inl its \<Longrightarrow>
   summary s = (\<lparr>data = None, error = None\<rparr>, s\<lparr>items := its\<rparr>)"
  by (simp add: summary_unfold)

lemma applyPromotions_Inr_prefix: "applyPromotions ps its = Inr c \<Longrightarrow> prefix its c"
proof (induction ps arbitrary: its)
  case Nil
  then show ?case by simp
next
  case (Cons p ps)
  then show ?case
  proof (cases "p its")
    case None
    with Cons.prems show ?thesis by simp
  next
    case (Some out)
    with Cons.prems have "applyPromotions ps (its @ out) = Inr c" by simp
    then have "prefix (its @ out) c" by (rule Cons.IH)
    then show ?thesis by (rule append_prefixD)
  qed
qed

lemma applyPromotions_Inl_prefix: "applyPromotions ps its = Inl c \<Longrightarrow> prefix its c"
proof (induction ps arbitrary: its)
  case Nil
  then show ?case by simp
next
  case (Cons p ps)
  then show ?case
  proof (cases "p its")
    case None
    with Cons.prems show ?thesis by simp
  next
    case (Some out)
    with Cons.prems have "applyPromotions ps (its @ out) = Inl c" by simp
    then have "prefix (its @ out) c" by (rule Cons.IH)
    then show ?thesis by (rule append_prefixD)
  qed
qed

lemma applyPromotions_append:
  "applyPromotions (ps @ qs) its =
     (case applyPromotions ps its of Inl c \<Rightarrow> Inl c | Inr c \<Rightarrow> applyPromotions qs c)"
  by (induction ps arbitrary: its) (simp_all split: option.splits)

lemma scan_keeps_collaborators:
  "promotionServices (snd (scan k s)) = promotionServices s
   \<and> itemRepository (snd (scan k s)) = itemRepository s"
  by (simp add: scan_def Let_def split: option.splits)

lemma scanAll_keeps_collaborators:
  "promotionServices (scanAll ks s) = promotionServices s
   \<and> itemRepository (scanAll ks s) = itemRepository s"
  unfolding scanAll_def
  by (induction ks arbitrary: s) (simp_all add: scan_keeps_collaborators)

lemma addNumber_zero_left: "isDouble x \<Longrightarrow> addNumber (Finite 0) x = x"
  by (cases x) simp_all

lemma subNumber_zero_right: "isDouble x \<Longrightarrow> subNumber x (Finite 0) = x"
  by (cases x) (simp_all add: subNumber_def)

lemma falsy_amount: "isDouble x \<Longrightarrow> x \<noteq> NaN \<Longrightarrow> \<not> truthy x \<Longrightarrow> x = Finite 0"
  by (cases x) simp_all

lemma isDouble_zero: "isDouble (Finite 0)"
  by (simp add: roundDouble_def)

lemma itemsReducer_net:
  assumes "pricedItem it"
  shows "itemsReducer acc it = addNumber acc (subNumber (orZero (price it)) (orZero (discount it)))"
proof -
  from assms have p: "amountOk (price it)" and d: "amountOk (discount it)"
    by (simp_all add: pricedItem_def)
  have m1: "(case price it of
               Some p \<Rightarrow> if truthy p then addNumber (Finite 0) p else Finite 0
             | None \<Rightarrow> Finite 0) = orZero (price it)"
    using p by (auto simp: amountOk_def orZero_def addNumber_zero_left
                     split: option.splits dest: falsy_amount)
  have dbl: "isDouble (orZero (price it))"
    using p isDouble_zero by (auto simp: amountOk_def orZero_def split: option.splits)
  have m2: "(case discount it of
               Some d \<Rightarrow> if truthy d then subNumber (orZero (price it)) d else orZero (price it)
             | None \<Rightarrow> orZero (price it))
            = subNumber (orZero (price it)) (orZero (discount it))"
    using d dbl by (auto simp: amountOk_def orZero_def subNumber_zero_right
                         split: option.splits dest: falsy_amount)
  show ?thesis
    unfolding itemsReducer_def Let_def m1 m2 by (rule refl)
qed

lemma foldl_itemsReducer:
  "list_all pricedItem its \<Longrightarrow>
   foldl itemsReducer acc its
     = foldl addNumber acc (map (\<lambda>it. subNumber (orZero (price it)) (orZero (discount it))) its)"
  by (induction its arbitrary: acc) (simp_all add: itemsReducer_net)

lemma joinElem_sku: "joinElem (skuOrUndefined it) = sku it"
  by (simp add: skuOrUndefined_def)

lemma join_skus: "join sep (map skuOrUndefined its) = joinWith sep (map sku its)"
  by (induction its rule: induct_list012) (simp_all add: joinElem_sku)

lemma report_spec:
  "list_all pricedItem its \<Longrightarrow>
   report its =
     ''SKUs Scanned: '' @ joinWith '', '' (map sku its) @ [CHR 0x0A]
       @ ''Total expected: $'' @ numberToString (specTotal its)"
  by (simp add: report_def join_skus foldl_itemsReducer specTotal_def sumNumbers_def)

lemma emitGroups_replicate: "emitGroups g bundle emitted = emitted @ concat (replicate g bundle)"
  by (induction g arbitrary: emitted) simp_all

lemma bundleLoop_concat:
  "list_all (\<lambda>r. 1 \<le> minimumQuantity r) rules \<Longrightarrow>
   bundleLoop rules cart emitted =
     Some (emitted @ concat (map (\<lambda>r. concat (replicate (countSku (sku r) cart div minimumQuantity r)
                                           (bundleItems r))) rules))"
  by (induction rules arbitrary: emitted) (simp_all add: emitGroups_replicate Let_def)

lemma scan_not_found:
  "k \<noteq> [] \<Longrightarrow> itemRepository s k = Some sel \<Longrightarrow> isEmpty (error sel) \<Longrightarrow> data sel = None \<Longrightarrow>
   scan (JsString k) s = (\<lparr>data = Some False, error = Some ItemNotFoundError\<rparr>, s)"
  by (simp add: scan_def)

lemma scan_propagates_keyed_error:
  "k \<noteq> [] \<Longrightarrow> itemRepository s k = Some sel \<Longrightarrow> error sel = Some e \<Longrightarrow>
   ownEnumerableKeys e \<noteq> [] \<Longrightarrow>
   scan (JsString k) s = (\<lparr>data = Some False, error = Some (Reported e)\<rparr>, s)"
  by (simp add: scan_def isEmpty_def)

subsection \<open>The scenarios of the test suite, evaluated\<close>

lemma report_parts:
  "join '', '' (map skuOrUndefined its) = skus \<Longrightarrow>
   foldl itemsReducer (Finite 0) its = t \<Longrightarrow>
   numberToString t = str \<Longrightarrow>
   report its = ''SKUs Scanned: '' @ skus @ [CHR 0x0A] @ ''Total expected: $'' @ str"
  by (simp add: report_def)

lemmas fixture_defs =
  promotionRuleItem1_def promotionRuleItem2_def itemT01_def itemT02_def itemT04_def

lemma services_checkoutService:
  "promotionServices (scanAll ks checkoutService) = [bundleApply [testRule]]"
  by (simp add: scanAll_keeps_collaborators checkoutService_def newCheckout_def)

lemma cart_three_p01_one_p02:
  "items (scanAll [''p01'', ''p01'', ''p01'', ''p02''] checkoutService)
     = [promotionRuleItem1, promotionRuleItem1, promotionRuleItem1, promotionRuleItem2]"
  by code_simp

lemma run_three_p01_one_p02:
  "applyPromotions [bundleApply [testRule]]
     [promotionRuleItem1, promotionRuleItem1, promotionRuleItem1, promotionRuleItem2]
   = Inr [promotionRuleItem1, promotionRuleItem1, promotionRuleItem1, promotionRuleItem2,
          promotionRuleItem2\<lparr>price := Some (Finite 0)\<rparr>]"
  by code_simp

lemma report_three_p01_two_p02:
  "report [promotionRuleItem1, promotionRuleItem1, promotionRuleItem1, promotionRuleItem2,
           promotionRuleItem2\<lparr>price := Some (Finite 0)\<rparr>]
   = ''SKUs Scanned: p01, p01, p01, p02, p02'' @ [CHR 0x0A] @ ''Total expected: $3.5''"
proof -
  let ?its = "[promotionRuleItem1, promotionRuleItem1, promotionRuleItem1, promotionRuleItem2,
               promotionRuleItem2\<lparr>price := Some (Finite 0)\<rparr>]"
  have skus: "join '', '' (map skuOrUndefined ?its) = ''p01, p01, p01, p02, p02''"
    by (simp add: skuOrUndefined_def fixture_defs)
  have total: "foldl itemsReducer (Finite 0) ?its = Finite (7 / 2)"
    by (simp add: itemsReducer_def fixture_defs number_eval)
  have str: "numberToString (Finite (7 / 2)) = ''3.5''"
    by (simp add: number_eval string_eval)
  from report_parts [OF skus total str] show ?thesis by simp
qed

lemma cart_t01_t02_t01:
  "items (scanAll [''t01'', ''t02'', ''t01''] checkoutService) = [itemT01, itemT02, itemT01]"
  by code_simp

lemma run_t01_t02_t01:
  "applyPromotions [bundleApply [testRule]] [itemT01, itemT02, itemT01]
   = Inr [itemT01, itemT02, itemT01]"
  by code_simp

lemma report_t01_t02_t01:
  "report [itemT01, itemT02, itemT01]
   = ''SKUs Scanned: t01, t02, t01'' @ [CHR 0x0A] @ ''Total expected: $5.98''"
proof -
  have skus: "join '', '' (map skuOrUndefined [itemT01, itemT02, itemT01]) = ''t01, t02, t01''"
    by (simp add: skuOrUndefined_def fixture_defs)
  have total: "foldl itemsReducer (Finite 0) [itemT01, itemT02, itemT01]
                 = Finite (1683220360729723 / 281474976710656)"
    by (simp add: itemsReducer_def fixture_defs price199_value number_eval)
  have str: "numberToString (Finite (1683220360729723 / 281474976710656)) = ''5.98''"
    by (simp add: number_eval string_eval)
  from report_parts [OF skus total str] show ?thesis by simp
qed

lemma cart_p01_p01_t02:
  "items (scanAll [''p01'', ''p01'', ''t02''] checkoutService)
     = [promotionRuleItem1, promotionRuleItem1, itemT02]"
  by code_simp

lemma run_p01_p01_t02:
  "applyPromotions [bundleApply [testRule]] [promotionRuleItem1, promotionRuleItem1, itemT02]
   = Inr [promotionRuleItem1, promotionRuleItem1, itemT02,
          promotionRuleItem2\<lparr>price := Some (Finite 0)\<rparr>]"
  by code_simp

lemma cart_p01_p01:
  "items (scanAll [''p01'', ''p01''] checkoutService) = [promotionRuleItem1, promotionRuleItem1]"
  by code_simp

lemma run_p01_p01:
  "applyPromotions [bundleApply [testRule]] [promotionRuleItem1, promotionRuleItem1]
   = Inr [promotionRuleItem1, promotionRuleItem1, promotionRuleItem2\<lparr>price := Some (Finite 0)\<rparr>]"
  by code_simp

lemma run_p01_p01_p02:
  "applyPromotions [bundleApply [testRule]]
     [promotionRuleItem1, promotionRuleItem1, promotionRuleItem2\<lparr>price := Some (Finite 0)\<rparr>]
   = Inr [promotionRuleItem1, promotionRuleItem1, promotionRuleItem2\<lparr>price := Some (Finite 0)\<rparr>,
          promotionRuleItem2\<lparr>price := Some (Finite 0)\<rparr>]"
  by code_simp

lemma report_p01_p01_p02:
  "report [promotionRuleItem1, promotionRuleItem1, promotionRuleItem2\<lparr>price := Some (Finite 0)\<rparr>]
   = ''SKUs Scanned: p01, p01, p02'' @ [CHR 0x0A] @ ''Total expected: $2''"
proof -
  let ?its = "[promotionRuleItem1, promotionRuleItem1,
               promotionRuleItem2\<lparr>price := Some (Finite 0)\<rparr>]"
  have skus: "join '', '' (map skuOrUndefined ?its) = ''p01, p01, p02''"
    by (simp add: skuOrUndefined_def fixture_defs)
  have total: "foldl itemsReducer (Finite 0) ?its = Finite 2"
    by (simp add: itemsReducer_def fixture_defs number_eval)
  have str: "numberToString (Finite 2) = ''2''"
    by (simp add: number_eval string_eval)
  from report_parts [OF skus total str] show ?thesis by simp
qed

lemma report_p01_p01_p02_p02:
  "report [promotionRuleItem1, promotionRuleItem1, promotionRuleItem2\<lparr>price := Some (Finite 0)\<rparr>,
           promotionRuleItem2\<lparr>price := Some (Finite 0)\<rparr>]
   = ''SKUs Scanned: p01, p01, p02, p02'' @ [CHR 0x0A] @ ''Total expected: $2''"
proof -
  let ?its = "[promotionRuleItem1, promotionRuleItem1,
               promotionRuleItem2\<lparr>price := Some (Finite 0)\<rparr>,
               promotionRuleItem2\<lparr>price := Some (Finite 0)\<rparr>]"
  have skus: "join '', '' (map skuOrUndefined ?its) = ''p01, p01, p02, p02''"
    by (simp add: skuOrUndefined_def fixture_defs)
  have total: "foldl itemsReducer (Finite 0) ?its = Finite 2"
    by (simp add: itemsReducer_def fixture_defs number_eval)
  have str: "numberToString (Finite 2) = ''2''"
    by (simp add: number_eval string_eval)
  from report_parts [OF skus total str] show ?thesis by simp
qed

lemma priced_fixtures:
  "pricedItem promotionRuleItem1" "pricedItem promotionRuleItem2" "pricedItem itemT01"
  "pricedItem itemT02" "pricedItem itemT04"
  "pricedItem (promotionRuleItem2\<lparr>price := Some (Finite 0)\<rparr>)"
  by (simp_all add: pricedItem_def amountOk_def fixture_defs price199_value price099_value
        number_eval)

lemma cart_p01_p01_p02:
  "items (scanAll [''p01'', ''p01'', ''p02''] twoPromotions)
     = [promotionRuleItem1, promotionRuleItem1, promotionRuleItem2]"
  "items (scanAll [''p01'', ''p01'', ''p02''] faultyPromotion)
     = [promotionRuleItem1, promotionRuleItem1, promotionRuleItem2]"
  by code_simp+

lemma first_promotion_p01_p01_p02:
  "applyPromotions [bundleApply [testRule]]
     [promotionRuleItem1, promotionRuleItem1, promotionRuleItem2]
   = Inr [promotionRuleItem1, promotionRuleItem1, promotionRuleItem2,
          promotionRuleItem2\<lparr>price := Some (Finite 0)\<rparr>]"
  by code_simp

lemma second_promotion_p01_p01_p02:
  "bundleApply [secondRule]
     [promotionRuleItem1, promotionRuleItem1, promotionRuleItem2,
      promotionRuleItem2\<lparr>price := Some (Finite 0)\<rparr>]
   = Some [itemT01\<lparr>price := Some (Finite 0)\<rparr>]"
  "bundleApply [secondRule] [promotionRuleItem1, promotionRuleItem1, promotionRuleItem2] = Some []"
  by code_simp+

lemma report_two_promotions:
  "report [promotionRuleItem1, promotionRuleItem1, promotionRuleItem2,
           promotionRuleItem2\<lparr>price := Some (Finite 0)\<rparr>, itemT01\<lparr>price := Some (Finite 0)\<rparr>]
   = ''SKUs Scanned: p01, p01, p02, p02, t01'' @ [CHR 0x0A] @ ''Total expected: $2.5''"
proof -
  let ?its = "[promotionRuleItem1, promotionRuleItem1, promotionRuleItem2,
               promotionRuleItem2\<lparr>price := Some (Finite 0)\<rparr>, itemT01\<lparr>price := Some (Finite 0)\<rparr>]"
  have skus: "join '', '' (map skuOrUndefined ?its) = ''p01, p01, p02, p02, t01''"
    by (simp add: skuOrUndefined_def fixture_defs)
  have total: "foldl itemsReducer (Finite 0) ?its = Finite (5 / 2)"
    by (simp add: itemsReducer_def fixture_defs number_eval)
  have str: "numberToString (Finite (5 / 2)) = ''2.5''"
    by (simp add: number_eval string_eval)
  from report_parts [OF skus total str] show ?thesis by simp
qed

lemma summary_twice_p01_p01:
  "summary (scanAll [''p01'', ''p01''] checkoutService)
     = (\<lparr>data = Some (''SKUs Scanned: p01, p01, p02'' @ [CHR 0x0A] @ ''Total expected: $2''),
         error = None\<rparr>,
        (scanAll [''p01'', ''p01''] checkoutService)
          \<lparr>items := [promotionRuleItem1, promotionRuleItem1,
                     promotionRuleItem2\<lparr>price := Some (Finite 0)\<rparr>]\<rparr>)"
  "summary (snd (summary (scanAll [''p01'', ''p01''] checkoutService)))
     = (\<lparr>data = Some (''SKUs Scanned: p01, p01, p02, p02'' @ [CHR 0x0A] @ ''Total expected: $2''),
         error = None\<rparr>,
        (scanAll [''p01'', ''p01''] checkoutService)
          \<lparr>items := [promotionRuleItem1, promotionRuleItem1,
                     promotionRuleItem2\<lparr>price := Some (Finite 0)\<rparr>,
                     promotionRuleItem2\<lparr>price := Some (Finite 0)\<rparr>]\<rparr>)"
proof -
  let ?s = "scanAll [''p01'', ''p01''] checkoutService"
  let ?its1 = "[promotionRuleItem1, promotionRuleItem1,
                promotionRuleItem2\<lparr>price := Some (Finite 0)\<rparr>]"
  let ?its2 = "[promotionRuleItem1, promotionRuleItem1,
                promotionRuleItem2\<lparr>price := Some (Finite 0)\<rparr>,
                promotionRuleItem2\<lparr>price := Some (Finite 0)\<rparr>]"
  have run1: "applyPromotions (promotionServices ?s) [promotionRuleItem1, promotionRuleItem1]
                = Inr ?its1"
    by (simp only: services_checkoutService run_p01_p01)
  have sm1: "summary ?s = (\<lparr>data = Some (report ?its1), error = None\<rparr>, ?s\<lparr>items := ?its1\<rparr>)"
    by (rule summary_run [OF cart_p01_p01 _ run1]) simp
  then show first: "summary ?s
     = (\<lparr>data = Some (''SKUs Scanned: p01, p01, p02'' @ [CHR 0x0A] @ ''Total expected: $2''),
         error = None\<rparr>, ?s\<lparr>items := ?its1\<rparr>)"
    by (simp only: report_p01_p01_p02)
  have c2: "items (?s\<lparr>items := ?its1\<rparr>) = ?its1" by simp
  have ps2: "promotionServices (?s\<lparr>items := ?its1\<rparr>) = [bundleApply [testRule]]"
    by (simp add: services_checkoutService)
  have run2: "applyPromotions (promotionServices (?s\<lparr>items := ?its1\<rparr>)) ?its1 = Inr ?its2"
    by (simp only: ps2 run_p01_p01_p02)
  have sm2: "summary (?s\<lparr>items := ?its1\<rparr>)
               = (\<lparr>data = Some (report ?its2), error = None\<rparr>, ?s\<lparr>items := ?its1, items := ?its2\<rparr>)"
    by (rule summary_run [OF c2 _ run2]) simp
  have "snd (summary ?s) = ?s\<lparr>items := ?its1\<rparr>" by (simp add: first)
  with sm2 show "summary (snd (summary ?s))
     = (\<lparr>data = Some (''SKUs Scanned: p01, p01, p02, p02'' @ [CHR 0x0A] @ ''Total expected: $2''),
         error = None\<rparr>, ?s\<lparr>items := ?its2\<rparr>)"
    by (simp add: report_p01_p01_p02_p02)
qed

text \<open>
  The second summary test of the suite: two \<open>t04\<close> (0.99), three \<open>p01\<close> and one \<open>p02\<close>
  report the seven SKUs, the free \<open>p02\<close> last, and the total 5.48.
\<close>

lemma summary_promotional_items:
  "fst (summary (scanAll [''t04'', ''t04'', ''p01'', ''p01'', ''p01'', ''p02''] checkoutService))
   = \<lparr>data = Some (''SKUs Scanned: t04, t04, p01, p01, p01, p02, p02'' @ [CHR 0x0A]
                    @ ''Total expected: $5.48''),
      error = None\<rparr>"
proof -
  let ?s = "scanAll [''t04'', ''t04'', ''p01'', ''p01'', ''p01'', ''p02''] checkoutService"
  let ?cart = "[itemT04, itemT04, promotionRuleItem1, promotionRuleItem1, promotionRuleItem1,
                promotionRuleItem2]"
  let ?its = "[itemT04, itemT04, promotionRuleItem1, promotionRuleItem1, promotionRuleItem1,
               promotionRuleItem2, promotionRuleItem2\<lparr>price := Some (Finite 0)\<rparr>]"
  have cart: "items ?s = ?cart" by code_simp
  have "applyPromotions [bundleApply [testRule]] ?cart = Inr ?its" by code_simp
  then have run: "applyPromotions (promotionServices ?s) ?cart = Inr ?its"
    by (simp only: services_checkoutService)
  have sm: "summary ?s = (\<lparr>data = Some (report ?its), error = None\<rparr>, ?s\<lparr>items := ?its\<rparr>)"
    by (rule summary_run [OF cart _ run]) simp
  have skus: "join '', '' (map skuOrUndefined ?its) = ''t04, t04, p01, p01, p01, p02, p02''"
    by (simp add: skuOrUndefined_def fixture_defs)
  have total: "foldl itemsReducer (Finite 0) ?its = Finite (1542482872374395 / 281474976710656)"
    by (simp add: itemsReducer_def fixture_defs price099_value number_eval)
  have str: "numberToString (Finite (1542482872374395 / 281474976710656)) = ''5.48''"
    by (simp add: number_eval string_eval)
  from report_parts [OF skus total str] sm show ?thesis by simp
qed

subsection \<open>The bundle promotion\<close>

text \<open>
  C1: for every cart and every sequence of bundle rules whose minimum quantities are at
  least one, \<open>apply\<close> of the bundle promotion returns, rule by rule in registration
  order, \<open>count div minimumQuantity\<close> copies of the rule's bundle items, group after
  group, where \<open>count\<close> is the number of items in the cart with the rule's SKU. With the
  rule of the test suite (two \<open>p01\<close> earn a free \<open>p02\<close>), scanning \<open>p01\<close> three times
  and \<open>p02\<close> once and summarising appends exactly one free \<open>p02\<close> and reports the SKUs
  \<open>p01, p01, p01, p02, p02\<close> with the total 3.5.
\<close>

theorem bundle_apply_groups:
  "(list_all (\<lambda>r. 1 \<le> minimumQuantity r) rules \<longrightarrow>
      bundleApply rules cart =
        Some (concat (map (\<lambda>r. concat (replicate (countSku (sku r) cart div minimumQuantity r)
                                          (bundleItems r))) rules)))
   \<and> items (snd (summary (scanAll [''p01'', ''p01'', ''p01'', ''p02''] checkoutService)))
        = items (scanAll [''p01'', ''p01'', ''p01'', ''p02''] checkoutService)
            @ [promotionRuleItem2\<lparr>price := Some (Finite 0)\<rparr>]
   \<and> fst (summary (scanAll [''p01'', ''p01'', ''p01'', ''p02''] checkoutService))
        = \<lparr>data = Some (''SKUs Scanned: p01, p01, p01, p02, p02'' @ [CHR 0x0A]
                          @ ''Total expected: $3.5''),
           error = None\<rparr>"
proof -
  let ?s = "scanAll [''p01'', ''p01'', ''p01'', ''p02''] checkoutService"
  have general: "list_all (\<lambda>r. 1 \<le> minimumQuantity r) rules \<longrightarrow>
      bundleApply rules cart =
        Some (concat (map (\<lambda>r. concat (replicate (countSku (sku r) cart div minimumQuantity r)
                                          (bundleItems r))) rules))"
    by (simp add: bundleApply_def bundleLoop_concat)
  have run: "applyPromotions (promotionServices ?s)
               [promotionRuleItem1, promotionRuleItem1, promotionRuleItem1, promotionRuleItem2]
             = Inr [promotionRuleItem1, promotionRuleItem1, promotionRuleItem1, promotionRuleItem2,
                    promotionRuleItem2\<lparr>price := Some (Finite 0)\<rparr>]"
    by (simp only: services_checkoutService run_three_p01_one_p02)
  have sm: "summary ?s =
      (\<lparr>data = Some (report [promotionRuleItem1, promotionRuleItem1, promotionRuleItem1,
                               promotionRuleItem2, promotionRuleItem2\<lparr>price := Some (Finite 0)\<rparr>]),
        error = None\<rparr>,
       ?s\<lparr>items := [promotionRuleItem1, promotionRuleItem1, promotionRuleItem1,
                    promotionRuleItem2, promotionRuleItem2\<lparr>price := Some (Finite 0)\<rparr>]\<rparr>)"
    by (rule summary_run [OF cart_three_p01_one_p02 _ run]) simp
  have cart': "items (snd (summary ?s)) = items ?s @ [promotionRuleItem2\<lparr>price := Some (Finite 0)\<rparr>]"
    by (simp add: sm cart_three_p01_one_p02)
  have out: "fst (summary ?s)
        = \<lparr>data = Some (''SKUs Scanned: p01, p01, p01, p02, p02'' @ [CHR 0x0A]
                          @ ''Total expected: $3.5''),
           error = None\<rparr>"
    by (simp only: sm fst_conv report_three_p01_two_p02)
  from general cart' out show ?thesis by blast
qed

theorem bundle_apply_groups_witness:
  "list_all (\<lambda>r. 1 \<le> minimumQuantity r) [testRule, secondRule]
   \<and> bundleApply [testRule, secondRule]
        [promotionRuleItem1, promotionRuleItem2, promotionRuleItem1, promotionRuleItem2,
         promotionRuleItem1, promotionRuleItem1, promotionRuleItem1]
      = Some [promotionRuleItem2\<lparr>price := Some (Finite 0)\<rparr>,
              promotionRuleItem2\<lparr>price := Some (Finite 0)\<rparr>,
              itemT01\<lparr>price := Some (Finite 0)\<rparr>]"
proof -
  let ?cart = "[promotionRuleItem1, promotionRuleItem2, promotionRuleItem1, promotionRuleItem2,
                promotionRuleItem1, promotionRuleItem1, promotionRuleItem1]"
  have h: "list_all (\<lambda>r. 1 \<le> minimumQuantity r) [testRule, secondRule]"
    by (simp add: testRule_def secondRule_def)
  have "bundleApply [testRule, secondRule] ?cart
      = Some (concat (map (\<lambda>r. concat (replicate (countSku (sku r) ?cart div minimumQuantity r)
                                          (bundleItems r))) [testRule, secondRule]))"
    using bundle_apply_groups [of "[testRule, secondRule]" ?cart] h by blast
  also have "\<dots> = Some [promotionRuleItem2\<lparr>price := Some (Finite 0)\<rparr>,
                         promotionRuleItem2\<lparr>price := Some (Finite 0)\<rparr>,
                         itemT01\<lparr>price := Some (Finite 0)\<rparr>]"
    by code_simp
  finally show ?thesis using h by simp
qed

subsection \<open>The report of summary\<close>

text \<open>
  C2: when the cart is not empty and the promotions have run, leaving the cart \<open>its\<close>
  whose prices and discounts, where present, are doubles other than \<^verbatim>\<open>NaN\<close>, \<open>summary\<close>
  returns as data the line \<open>SKUs Scanned:\<close> with the SKUs of \<open>its\<close> joined by a comma and
  a space, a newline, and the line \<open>Total expected: $\<close> with the sum over \<open>its\<close>, in cart
  order and in the arithmetic of JavaScript numbers, of the price (zero if absent) minus
  the discount (zero if absent), printed as JavaScript prints a number. Scanning \<open>t01\<close>
  (1.99), \<open>t02\<close> (2) and \<open>t01\<close> again gives exactly \<open>SKUs Scanned: t01, t02, t01\<close>,
  newline, \<open>Total expected: $5.98\<close>.
\<close>

theorem summary_report_format:
  "(items s \<noteq> [] \<and> applyPromotions (promotionServices s) (items s) = Inr its
      \<and> list_all pricedItem its \<longrightarrow>
      fst (summary s) =
        \<lparr>data = Some (''SKUs Scanned: '' @ joinWith '', '' (map sku its) @ [CHR 0x0A]
                         @ ''Total expected: $'' @ numberToString (specTotal its)),
         error = None\<rparr>)
   \<and> fst (summary (scanAll [''t01'', ''t02'', ''t01''] checkoutService)) =
        \<lparr>data = Some (''SKUs Scanned: t01, t02, t01'' @ [CHR 0x0A] @ ''Total expected: $5.98''),
         error = None\<rparr>"
proof (intro conjI impI)
  assume h: "items s \<noteq> [] \<and> applyPromotions (promotionServices s) (items s) = Inr its
      \<and> list_all pricedItem its"
  then have "fst (summary s) = \<lparr>data = Some (report its), error = None\<rparr>"
    by (simp add: summary_unfold)
  with h show "fst (summary s) =
        \<lparr>data = Some (''SKUs Scanned: '' @ joinWith '', '' (map sku its) @ [CHR 0x0A]
                         @ ''Total expected: $'' @ numberToString (specTotal its)),
         error = None\<rparr>"
    by (simp only: report_spec)
next
  let ?s = "scanAll [''t01'', ''t02'', ''t01''] checkoutService"
  have run: "applyPromotions (promotionServices ?s) [itemT01, itemT02, itemT01]
             = Inr [itemT01, itemT02, itemT01]"
    by (simp only: services_checkoutService run_t01_t02_t01)
  have sm: "summary ?s = (\<lparr>data = Some (report [itemT01, itemT02, itemT01]), error = None\<rparr>,
                          ?s\<lparr>items := [itemT01, itemT02, itemT01]\<rparr>)"
    by (rule summary_run [OF cart_t01_t02_t01 _ run]) simp
  show "fst (summary ?s) =
        \<lparr>data = Some (''SKUs Scanned: t01, t02, t01'' @ [CHR 0x0A] @ ''Total expected: $5.98''),
         error = None\<rparr>"
    by (simp only: sm fst_conv report_t01_t02_t01)
qed

theorem summary_report_format_witness:
  "items (scanAll [''p01'', ''p01'', ''t02''] checkoutService) \<noteq> []
   \<and> applyPromotions (promotionServices (scanAll [''p01'', ''p01'', ''t02''] checkoutService))
        (items (scanAll [''p01'', ''p01'', ''t02''] checkoutService))
      = Inr [promotionRuleItem1, promotionRuleItem1, itemT02,
             promotionRuleItem2\<lparr>price := Some (Finite 0)\<rparr>]
   \<and> list_all pricedItem [promotionRuleItem1, promotionRuleItem1, itemT02,
                           promotionRuleItem2\<lparr>price := Some (Finite 0)\<rparr>]
   \<and> fst (summary (scanAll [''p01'', ''p01'', ''t02''] checkoutService)) =
        \<lparr>data = Some (''SKUs Scanned: p01, p01, t02, p02'' @ [CHR 0x0A] @ ''Total expected: $4''),
         error = None\<rparr>"
proof -
  let ?s = "scanAll [''p01'', ''p01'', ''t02''] checkoutService"
  let ?its = "[promotionRuleItem1, promotionRuleItem1, itemT02,
               promotionRuleItem2\<lparr>price := Some (Finite 0)\<rparr>]"
  have h1: "items ?s \<noteq> []" by (simp add: cart_p01_p01_t02)
  have h2: "applyPromotions (promotionServices ?s) (items ?s) = Inr ?its"
    by (simp only: services_checkoutService cart_p01_p01_t02 run_p01_p01_t02)
  have h3: "list_all pricedItem ?its" by (simp add: priced_fixtures)
  have "fst (summary ?s) =
        \<lparr>data = Some (''SKUs Scanned: '' @ joinWith '', '' (map sku ?its) @ [CHR 0x0A]
                         @ ''Total expected: $'' @ numberToString (specTotal ?its)),
         error = None\<rparr>"
    using summary_report_format [of ?s ?its] h1 h2 h3 by blast
  moreover have "joinWith '', '' (map sku ?its) = ''p01, p01, t02, p02''"
    by (simp add: fixture_defs)
  moreover have "specTotal ?its = Finite 4"
    by (simp add: specTotal_def sumNumbers_def orZero_def fixture_defs number_eval)
  moreover have "numberToString (Finite 4) = ''4''"
    by (simp add: number_eval string_eval)
  ultimately have "fst (summary ?s) =
        \<lparr>data = Some (''SKUs Scanned: p01, p01, t02, p02'' @ [CHR 0x0A] @ ''Total expected: $4''),
         error = None\<rparr>"
    by simp
  with h1 h2 h3 show ?thesis by blast
qed

subsection \<open>What summary does to the cart\<close>

text \<open>
  The claim C3 as worded (the cart after \<open>summary\<close> is the cart before it, and a second
  \<open>summary\<close> gives the same report) fails: after two scans of \<open>p01\<close> the first
  \<open>summary\<close> leaves the free \<open>p02\<close> in the cart, and the second one reports one more.
\<close>

theorem summary_not_persisted_counterexample:
  "items (snd (summary (scanAll [''p01'', ''p01''] checkoutService)))
     \<noteq> items (scanAll [''p01'', ''p01''] checkoutService)
   \<and> fst (summary (snd (summary (scanAll [''p01'', ''p01''] checkoutService))))
     \<noteq> fst (summary (scanAll [''p01'', ''p01''] checkoutService))"
proof -
  let ?s = "scanAll [''p01'', ''p01''] checkoutService"
  have f1: "fst (summary ?s)
      = \<lparr>data = Some (''SKUs Scanned: p01, p01, p02'' @ [CHR 0x0A] @ ''Total expected: $2''),
         error = None\<rparr>"
    by (simp only: summary_twice_p01_p01(1) fst_conv)
  have f2: "fst (summary (snd (summary ?s)))
      = \<lparr>data = Some (''SKUs Scanned: p01, p01, p02, p02'' @ [CHR 0x0A] @ ''Total expected: $2''),
         error = None\<rparr>"
    by (simp only: summary_twice_p01_p01(2) fst_conv)
  have "snd (summary ?s) = ?s\<lparr>items := [promotionRuleItem1, promotionRuleItem1,
                                          promotionRuleItem2\<lparr>price := Some (Finite 0)\<rparr>]\<rparr>"
    by (simp only: summary_twice_p01_p01(1) snd_conv)
  then have i1: "items (snd (summary ?s))
      = [promotionRuleItem1, promotionRuleItem1, promotionRuleItem2\<lparr>price := Some (Finite 0)\<rparr>]"
    by simp
  have "items (snd (summary ?s)) \<noteq> items ?s"
    by (simp only: i1 cart_p01_p01) simp
  moreover have "fst (summary (snd (summary ?s))) \<noteq> fst (summary ?s)"
    by (simp only: f1 f2) simp
  ultimately show ?thesis by blast
qed

text \<open>
  C3, amended: \<open>summary\<close> on a non-empty cart stores the cart the promotions produced in
  the session; that cart is the cart before the call followed by the emitted items. It
  is the cart before the call when no promotion service is registered, and whenever
  nothing was emitted a second \<open>summary\<close> returns the same report and state as the first.
  Otherwise a second \<open>summary\<close> applies the promotions to the grown cart and reports and
  stores what they produce from it.
\<close>

theorem summary_persists_promotions:
  "items s \<noteq> [] \<and> applyPromotions (promotionServices s) (items s) = Inr its \<longrightarrow>
     snd (summary s) = s\<lparr>items := its\<rparr>
     \<and> (\<exists>emitted. its = items s @ emitted)
     \<and> (promotionServices s = [] \<longrightarrow> its = items s)
     \<and> (its = items s \<longrightarrow> summary (snd (summary s)) = summary s)
     \<and> (\<forall>its2. applyPromotions (promotionServices s) its = Inr its2 \<longrightarrow>
           summary (snd (summary s))
             = (\<lparr>data = Some (report its2), error = None\<rparr>, s\<lparr>items := its2\<rparr>))"
proof (intro impI)
  assume h: "items s \<noteq> [] \<and> applyPromotions (promotionServices s) (items s) = Inr its"
  then have st: "snd (summary s) = s\<lparr>items := its\<rparr>" by (simp add: summary_unfold)
  from h have "prefix (items s) its" using applyPromotions_Inr_prefix by blast
  then have ex: "\<exists>emitted. its = items s @ emitted" by (simp add: prefix_def)
  from ex h have ne: "its \<noteq> []" by auto
  from h have none: "promotionServices s = [] \<longrightarrow> its = items s" by auto
  have same: "its = items s \<longrightarrow> summary (snd (summary s)) = summary s"
  proof
    assume "its = items s"
    with st have "snd (summary s) = s" by simp
    then show "summary (snd (summary s)) = summary s" by simp
  qed
  have again: "\<forall>its2. applyPromotions (promotionServices s) its = Inr its2 \<longrightarrow>
           summary (snd (summary s))
             = (\<lparr>data = Some (report its2), error = None\<rparr>, s\<lparr>items := its2\<rparr>)"
  proof (intro allI impI)
    fix its2
    assume r: "applyPromotions (promotionServices s) its = Inr its2"
    have "summary (s\<lparr>items := its\<rparr>)
            = (\<lparr>data = Some (report its2), error = None\<rparr>, s\<lparr>items := its, items := its2\<rparr>)"
      by (rule summary_run [of _ its]) (simp_all add: ne r)
    with st show "summary (snd (summary s))
             = (\<lparr>data = Some (report its2), error = None\<rparr>, s\<lparr>items := its2\<rparr>)"
      by simp
  qed
  from st ex none same again
  show "snd (summary s) = s\<lparr>items := its\<rparr>
     \<and> (\<exists>emitted. its = items s @ emitted)
     \<and> (promotionServices s = [] \<longrightarrow> its = items s)
     \<and> (its = items s \<longrightarrow> summary (snd (summary s)) = summary s)
     \<and> (\<forall>its2. applyPromotions (promotionServices s) its = Inr its2 \<longrightarrow>
           summary (snd (summary s))
             = (\<lparr>data = Some (report its2), error = None\<rparr>, s\<lparr>items := its2\<rparr>))"
    by blast
qed

theorem summary_persists_promotions_witness:
  "items (scanAll [''p01'', ''p01''] checkoutService) = [promotionRuleItem1, promotionRuleItem1]
   \<and> applyPromotions (promotionServices (scanAll [''p01'', ''p01''] checkoutService))
        (items (scanAll [''p01'', ''p01''] checkoutService))
      = Inr [promotionRuleItem1, promotionRuleItem1, promotionRuleItem2\<lparr>price := Some (Finite 0)\<rparr>]
   \<and> items (snd (summary (scanAll [''p01'', ''p01''] checkoutService)))
      = [promotionRuleItem1, promotionRuleItem1, promotionRuleItem2\<lparr>price := Some (Finite 0)\<rparr>]
   \<and> applyPromotions (promotionServices (scanAll [''p01'', ''p01''] checkoutService))
        [promotionRuleItem1, promotionRuleItem1, promotionRuleItem2\<lparr>price := Some (Finite 0)\<rparr>]
      = Inr [promotionRuleItem1, promotionRuleItem1, promotionRuleItem2\<lparr>price := Some (Finite 0)\<rparr>,
             promotionRuleItem2\<lparr>price := Some (Finite 0)\<rparr>]
   \<and> fst (summary (snd (summary (scanAll [''p01'', ''p01''] checkoutService))))
      = \<lparr>data = Some (''SKUs Scanned: p01, p01, p02, p02'' @ [CHR 0x0A] @ ''Total expected: $2''),
         error = None\<rparr>
   \<and> items (snd (summary (snd (summary (scanAll [''p01'', ''p01''] checkoutService)))))
      = [promotionRuleItem1, promotionRuleItem1, promotionRuleItem2\<lparr>price := Some (Finite 0)\<rparr>,
         promotionRuleItem2\<lparr>price := Some (Finite 0)\<rparr>]
   \<and> items (scanAll [''t01''] (newCheckout [] (selectOne testStore))) = [itemT01]
   \<and> promotionServices (scanAll [''t01''] (newCheckout [] (selectOne testStore))) = []
   \<and> items (snd (summary (scanAll [''t01''] (newCheckout [] (selectOne testStore))))) = [itemT01]
   \<and> fst (summary (snd (summary (scanAll [''t01''] (newCheckout [] (selectOne testStore))))))
        = fst (summary (scanAll [''t01''] (newCheckout [] (selectOne testStore))))"
proof -
  let ?s = "scanAll [''p01'', ''p01''] checkoutService"
  let ?its1 = "[promotionRuleItem1, promotionRuleItem1,
                promotionRuleItem2\<lparr>price := Some (Finite 0)\<rparr>]"
  let ?its2 = "[promotionRuleItem1, promotionRuleItem1,
                promotionRuleItem2\<lparr>price := Some (Finite 0)\<rparr>,
                promotionRuleItem2\<lparr>price := Some (Finite 0)\<rparr>]"
  let ?t = "scanAll [''t01''] (newCheckout [] (selectOne testStore))"
  have a1: "items ?s \<noteq> []" by (simp add: cart_p01_p01)
  have a2: "applyPromotions (promotionServices ?s) (items ?s) = Inr ?its1"
    by (simp only: services_checkoutService cart_p01_p01 run_p01_p01)
  have a3: "applyPromotions (promotionServices ?s) ?its1 = Inr ?its2"
    by (simp only: services_checkoutService run_p01_p01_p02)
  from summary_persists_promotions [of ?s ?its1] a1 a2 a3
  have s1: "snd (summary ?s) = ?s\<lparr>items := ?its1\<rparr>"
    and s2: "summary (snd (summary ?s))
               = (\<lparr>data = Some (report ?its2), error = None\<rparr>, ?s\<lparr>items := ?its2\<rparr>)"
    by blast+
  from s1 have r1: "items (snd (summary ?s)) = ?its1" by simp
  from s2 have r2: "fst (summary (snd (summary ?s)))
      = \<lparr>data = Some (''SKUs Scanned: p01, p01, p02, p02'' @ [CHR 0x0A] @ ''Total expected: $2''),
         error = None\<rparr>"
    by (simp only: fst_conv report_p01_p01_p02_p02)
  from s2 have r3: "items (snd (summary (snd (summary ?s)))) = ?its2" by simp
  have b0: "items ?t = [itemT01]" by code_simp
  have b1: "items ?t \<noteq> []" by (simp add: b0)
  have b2: "promotionServices ?t = []"
    by (simp add: scanAll_keeps_collaborators newCheckout_def)
  have b3: "applyPromotions (promotionServices ?t) (items ?t) = Inr (items ?t)"
    by (simp add: b2)
  from summary_persists_promotions [of ?t "items ?t"] b1 b3
  have "snd (summary ?t) = ?t\<lparr>items := items ?t\<rparr>"
    and "summary (snd (summary ?t)) = summary ?t"
    by blast+
  then have r4: "items (snd (summary ?t)) = [itemT01]"
    and r5: "fst (summary (snd (summary ?t))) = fst (summary ?t)"
    by (simp_all add: b0)
  from a2 a3 r1 r2 r3 b0 b2 r4 r5 cart_p01_p01 show ?thesis by simp
qed

text \<open>
  C4: within one \<open>summary\<close> on a non-empty cart, the promotion services run in
  registration order and each is applied to the cart with the items of all earlier ones
  appended. For a service \<open>p\<close> registered after the services \<open>earlier\<close>, which leave the
  cart \<open>c\<close>: \<open>c\<close> starts with the scanned cart, it is the scanned cart when nothing is
  registered before \<open>p\<close>, and otherwise it is what the predecessor of \<open>p\<close> received
  followed by what that predecessor returned. The outcome of \<open>summary\<close> is decided by \<open>p\<close>
  on \<open>c\<close>: when \<open>p\<close> throws on \<open>c\<close>, \<open>summary\<close> returns neither data nor error and leaves
  \<open>c\<close> in the session; when \<open>p\<close> returns \<open>out\<close> on \<open>c\<close>, the later services continue
  from \<open>c\<close> followed by \<open>out\<close>, and \<open>summary\<close> reports and stores the cart they leave.
\<close>

theorem promotions_see_earlier_results:
  "items s \<noteq> [] \<and> promotionServices s = earlier @ p # later
     \<and> applyPromotions earlier (items s) = Inr c \<longrightarrow>
     prefix (items s) c
     \<and> (earlier = [] \<longrightarrow> c = items s)
     \<and> (\<forall>qs q d out. earlier = qs @ [q] \<and> applyPromotions qs (items s) = Inr d \<and> q d = Some out
           \<longrightarrow> c = d @ out)
     \<and> (p c = None \<longrightarrow> summary s = (\<lparr>data = None, error = None\<rparr>, s\<lparr>items := c\<rparr>))
     \<and> (\<forall>out its. p c = Some out \<and> applyPromotions later (c @ out) = Inr its \<longrightarrow>
           summary s = (\<lparr>data = Some (report its), error = None\<rparr>, s\<lparr>items := its\<rparr>)
           \<and> prefix (c @ out) its)"
proof (intro impI)
  assume h: "items s \<noteq> [] \<and> promotionServices s = earlier @ p # later
     \<and> applyPromotions earlier (items s) = Inr c"
  then have ne: "items s \<noteq> []" and ps: "promotionServices s = earlier @ p # later"
    and ec: "applyPromotions earlier (items s) = Inr c"
    by simp_all
  have loop: "applyPromotions (promotionServices s) (items s)
                = (case p c of None \<Rightarrow> Inl c | Some out \<Rightarrow> applyPromotions later (c @ out))"
    by (simp add: ps applyPromotions_append ec)
  have c1: "prefix (items s) c" using ec by (rule applyPromotions_Inr_prefix)
  have c2: "earlier = [] \<longrightarrow> c = items s" using ec by auto
  have c3: "\<forall>qs q d out. earlier = qs @ [q] \<and> applyPromotions qs (items s) = Inr d \<and> q d = Some out
           \<longrightarrow> c = d @ out"
    using ec by (auto simp: applyPromotions_append)
  have c4: "p c = None \<longrightarrow> summary s = (\<lparr>data = None, error = None\<rparr>, s\<lparr>items := c\<rparr>)"
  proof
    assume "p c = None"
    with loop have "applyPromotions (promotionServices s) (items s) = Inl c" by simp
    from summary_fault [OF refl ne this]
    show "summary s = (\<lparr>data = None, error = None\<rparr>, s\<lparr>items := c\<rparr>)" .
  qed
  have c5: "\<forall>out its. p c = Some out \<and> applyPromotions later (c @ out) = Inr its \<longrightarrow>
           summary s = (\<lparr>data = Some (report its), error = None\<rparr>, s\<lparr>items := its\<rparr>)
           \<and> prefix (c @ out) its"
  proof (intro allI impI)
    fix out its
    assume a: "p c = Some out \<and> applyPromotions later (c @ out) = Inr its"
    with loop have "applyPromotions (promotionServices s) (items s) = Inr its" by simp
    from summary_run [OF refl ne this]
    have "summary s = (\<lparr>data = Some (report its), error = None\<rparr>, s\<lparr>items := its\<rparr>)" .
    moreover from a have "prefix (c @ out) its" using applyPromotions_Inr_prefix by blast
    ultimately show "summary s = (\<lparr>data = Some (report its), error = None\<rparr>, s\<lparr>items := its\<rparr>)
           \<and> prefix (c @ out) its"
      by simp
  qed
  from c1 c2 c3 c4 c5
  show "prefix (items s) c
     \<and> (earlier = [] \<longrightarrow> c = items s)
     \<and> (\<forall>qs q d out. earlier = qs @ [q] \<and> applyPromotions qs (items s) = Inr d \<and> q d = Some out
           \<longrightarrow> c = d @ out)
     \<and> (p c = None \<longrightarrow> summary s = (\<lparr>data = None, error = None\<rparr>, s\<lparr>items := c\<rparr>))
     \<and> (\<forall>out its. p c = Some out \<and> applyPromotions later (c @ out) = Inr its \<longrightarrow>
           summary s = (\<lparr>data = Some (report its), error = None\<rparr>, s\<lparr>items := its\<rparr>)
           \<and> prefix (c @ out) its)"
    by blast
qed

theorem promotions_see_earlier_results_witness:
  "items (scanAll [''p01'', ''p01'', ''p02''] twoPromotions)
     = [promotionRuleItem1, promotionRuleItem1, promotionRuleItem2]
   \<and> promotionServices (scanAll [''p01'', ''p01'', ''p02''] twoPromotions)
     = [bundleApply [testRule]] @ bundleApply [secondRule] # []
   \<and> applyPromotions [bundleApply [testRule]]
        (items (scanAll [''p01'', ''p01'', ''p02''] twoPromotions))
     = Inr [promotionRuleItem1, promotionRuleItem1, promotionRuleItem2,
            promotionRuleItem2\<lparr>price := Some (Finite 0)\<rparr>]
   \<and> bundleApply [secondRule] (items (scanAll [''p01'', ''p01'', ''p02''] twoPromotions)) = Some []
   \<and> bundleApply [secondRule]
        [promotionRuleItem1, promotionRuleItem1, promotionRuleItem2,
         promotionRuleItem2\<lparr>price := Some (Finite 0)\<rparr>]
     = Some [itemT01\<lparr>price := Some (Finite 0)\<rparr>]
   \<and> items (snd (summary (scanAll [''p01'', ''p01'', ''p02''] twoPromotions)))
     = [promotionRuleItem1, promotionRuleItem1, promotionRuleItem2,
        promotionRuleItem2\<lparr>price := Some (Finite 0)\<rparr>, itemT01\<lparr>price := Some (Finite 0)\<rparr>]
   \<and> fst (summary (scanAll [''p01'', ''p01'', ''p02''] twoPromotions))
     = \<lparr>data = Some (''SKUs Scanned: p01, p01, p02, p02, t01'' @ [CHR 0x0A]
                      @ ''Total expected: $2.5''),
        error = None\<rparr>
   \<and> promotionServices (scanAll [''p01'', ''p01'', ''p02''] faultyPromotion)
     = [bundleApply [testRule]] @ (\<lambda>cart. None) # []
   \<and> fst (summary (scanAll [''p01'', ''p01'', ''p02''] faultyPromotion))
     = \<lparr>data = None, error = None\<rparr>
   \<and> items (snd (summary (scanAll [''p01'', ''p01'', ''p02''] faultyPromotion)))
     = [promotionRuleItem1, promotionRuleItem1, promotionRuleItem2,
        promotionRuleItem2\<lparr>price := Some (Finite 0)\<rparr>]"
proof -
  let ?s = "scanAll [''p01'', ''p01'', ''p02''] twoPromotions"
  let ?f = "scanAll [''p01'', ''p01'', ''p02''] faultyPromotion"
  let ?cart = "[promotionRuleItem1, promotionRuleItem1, promotionRuleItem2]"
  let ?c = "[promotionRuleItem1, promotionRuleItem1, promotionRuleItem2,
             promotionRuleItem2\<lparr>price := Some (Finite 0)\<rparr>]"
  let ?its = "[promotionRuleItem1, promotionRuleItem1, promotionRuleItem2,
               promotionRuleItem2\<lparr>price := Some (Finite 0)\<rparr>, itemT01\<lparr>price := Some (Finite 0)\<rparr>]"
  have a1: "items ?s \<noteq> []" by (simp add: cart_p01_p01_p02)
  have a2: "promotionServices ?s = [bundleApply [testRule]] @ bundleApply [secondRule] # []"
    by (simp add: scanAll_keeps_collaborators twoPromotions_def newCheckout_def)
  have a3: "applyPromotions [bundleApply [testRule]] (items ?s) = Inr ?c"
    by (simp only: cart_p01_p01_p02 first_promotion_p01_p01_p02)
  have a4: "bundleApply [secondRule] ?c = Some [itemT01\<lparr>price := Some (Finite 0)\<rparr>]"
    by (rule second_promotion_p01_p01_p02)
  have a5: "applyPromotions [] (?c @ [itemT01\<lparr>price := Some (Finite 0)\<rparr>]) = Inr ?its"
    by simp
  have a6: "[bundleApply [testRule]] = [] @ [bundleApply [testRule]]" by simp
  have a7: "applyPromotions [] (items ?s) = Inr (items ?s)" by simp
  have a8: "bundleApply [testRule] (items ?s) = Some [promotionRuleItem2\<lparr>price := Some (Finite 0)\<rparr>]"
    unfolding cart_p01_p01_p02 by code_simp
  from promotions_see_earlier_results
         [of ?s "[bundleApply [testRule]]" "bundleApply [secondRule]" "[]" ?c] a1 a2 a3
  have w1: "\<forall>qs q d out. [bundleApply [testRule]] = qs @ [q] \<and> applyPromotions qs (items ?s) = Inr d
              \<and> q d = Some out \<longrightarrow> ?c = d @ out"
    and w2: "\<forall>out its. bundleApply [secondRule] ?c = Some out
              \<and> applyPromotions [] (?c @ out) = Inr its \<longrightarrow>
              summary ?s = (\<lparr>data = Some (report its), error = None\<rparr>, ?s\<lparr>items := its\<rparr>)
              \<and> prefix (?c @ out) its"
    by blast+
  from w1 a6 a7 a8 have "?c = items ?s @ [promotionRuleItem2\<lparr>price := Some (Finite 0)\<rparr>]"
    by blast
  from w2 a4 a5 have sm: "summary ?s = (\<lparr>data = Some (report ?its), error = None\<rparr>, ?s\<lparr>items := ?its\<rparr>)"
    by blast
  from sm have r1: "items (snd (summary ?s)) = ?its" by simp
  from sm have r2: "fst (summary ?s)
     = \<lparr>data = Some (''SKUs Scanned: p01, p01, p02, p02, t01'' @ [CHR 0x0A]
                      @ ''Total expected: $2.5''),
        error = None\<rparr>"
    by (simp only: fst_conv report_two_promotions)
  have b1: "items ?f \<noteq> []" by (simp add: cart_p01_p01_p02)
  have b2: "promotionServices ?f = [bundleApply [testRule]] @ (\<lambda>cart. None) # []"
    by (simp add: scanAll_keeps_collaborators faultyPromotion_def newCheckout_def)
  have b3: "applyPromotions [bundleApply [testRule]] (items ?f) = Inr ?c"
    by (simp only: cart_p01_p01_p02 first_promotion_p01_p01_p02)
  from promotions_see_earlier_results
         [of ?f "[bundleApply [testRule]]" "\<lambda>cart. None" "[]" ?c] b1 b2 b3
  have fm: "summary ?f = (\<lparr>data = None, error = None\<rparr>, ?f\<lparr>items := ?c\<rparr>)"
    by blast
  from fm have r3: "fst (summary ?f) = \<lparr>data = None, error = None\<rparr>"
    and r4: "items (snd (summary ?f)) = ?c"
    by simp_all
  have a9: "bundleApply [secondRule] (items ?s) = Some []"
    by (simp only: cart_p01_p01_p02 second_promotion_p01_p01_p02)
  from cart_p01_p01_p02(1) a2 a3 a9 a4 r1 r2 b2 r3 r4 show ?thesis by blast
qed

text \<open>
  C5: on an empty cart \<open>summary\<close> returns the error \<open>EmptyCartError\<close> and no data, and
  the session is unchanged, whatever the registered promotion services would emit: the
  check comes before the promotion loop, and the cart stays empty.
\<close>

theorem summary_empty_cart:
  "items s = [] \<Longrightarrow> summary s = (\<lparr>data = None, error = Some EmptyCartError\<rparr>, s)"
  by (simp add: summary_def)

theorem summary_empty_cart_witness:
  "items (newCheckout [\<lambda>cart. Some [promotionRuleItem1]] (selectOne testStore)) = []
   \<and> fst (summary (newCheckout [\<lambda>cart. Some [promotionRuleItem1]] (selectOne testStore)))
        = \<lparr>data = None, error = Some EmptyCartError\<rparr>
   \<and> items (snd (summary (newCheckout [\<lambda>cart. Some [promotionRuleItem1]] (selectOne testStore))))
        = []"
proof -
  let ?s = "newCheckout [\<lambda>cart. Some [promotionRuleItem1]] (selectOne testStore)"
  have h: "items ?s = []" by (simp add: newCheckout_def)
  from summary_empty_cart [OF h] h show ?thesis by simp
qed

text \<open>
  C8: on a non-empty cart \<open>summary\<close> only grows the cart: the cart before the call is a
  prefix of the cart after it, so every item keeps its position, the cart stays
  non-empty, and the repository and the promotion services are unchanged. This holds
  also when a promotion service throws.
\<close>

theorem summary_only_grows_cart:
  "items s \<noteq> [] \<Longrightarrow>
     prefix (items s) (items (snd (summary s)))
     \<and> (\<forall>i < length (items s). items (snd (summary s)) ! i = items s ! i)
     \<and> items (snd (summary s)) \<noteq> []
     \<and> itemRepository (snd (summary s)) = itemRepository s
     \<and> promotionServices (snd (summary s)) = promotionServices s"
proof -
  assume ne: "items s \<noteq> []"
  have p: "prefix (items s) (items (snd (summary s)))"
  proof (cases "applyPromotions (promotionServices s) (items s)")
    case (Inl c)
    with ne show ?thesis by (simp add: summary_unfold applyPromotions_Inl_prefix)
  next
    case (Inr c)
    with ne show ?thesis by (simp add: summary_unfold applyPromotions_Inr_prefix)
  qed
  then obtain extra where e: "items (snd (summary s)) = items s @ extra"
    by (auto simp: prefix_def)
  have r: "itemRepository (snd (summary s)) = itemRepository s
     \<and> promotionServices (snd (summary s)) = promotionServices s"
    by (simp add: summary_unfold split: sum.splits)
  from p e ne r show ?thesis by (simp add: nth_append)
qed

theorem summary_only_grows_cart_witness:
  "items (scanAll [''p01'', ''p01''] checkoutService) \<noteq> []
   \<and> items (scanAll [''p01'', ''p01''] checkoutService) = [promotionRuleItem1, promotionRuleItem1]
   \<and> items (snd (summary (scanAll [''p01'', ''p01''] checkoutService)))
        = [promotionRuleItem1, promotionRuleItem1, promotionRuleItem2\<lparr>price := Some (Finite 0)\<rparr>]
   \<and> prefix (items (scanAll [''p01'', ''p01''] checkoutService))
        (items (snd (summary (scanAll [''p01'', ''p01''] checkoutService))))"
proof -
  let ?s = "scanAll [''p01'', ''p01''] checkoutService"
  have a: "items ?s = [promotionRuleItem1, promotionRuleItem1]" by (rule cart_p01_p01)
  have h: "items ?s \<noteq> []" by (simp add: a)
  have "snd (summary ?s) = ?s\<lparr>items := [promotionRuleItem1, promotionRuleItem1,
                                          promotionRuleItem2\<lparr>price := Some (Finite 0)\<rparr>]\<rparr>"
    by (simp only: summary_twice_p01_p01(1) snd_conv)
  then have b: "items (snd (summary ?s))
        = [promotionRuleItem1, promotionRuleItem1, promotionRuleItem2\<lparr>price := Some (Finite 0)\<rparr>]"
    by simp
  from summary_only_grows_cart [OF h] have "prefix (items ?s) (items (snd (summary ?s)))"
    by blast
  with h a b show ?thesis by blast
qed

subsection \<open>scan\<close>

text \<open>
  C6: \<open>scan\<close> with \<open>undefined\<close>, \<open>null\<close> or the empty string returns \<open>data = false\<close>
  with \<open>InvalidInputError\<close> and leaves the session unchanged, whatever the repository
  is: the repository is not consulted.
\<close>

theorem scan_invalid_input:
  "scan JsUndefined (s\<lparr>itemRepository := repo\<rparr>)
     = (\<lparr>data = Some False, error = Some InvalidInputError\<rparr>, s\<lparr>itemRepository := repo\<rparr>)
   \<and> scan JsNull (s\<lparr>itemRepository := repo\<rparr>)
     = (\<lparr>data = Some False, error = Some InvalidInputError\<rparr>, s\<lparr>itemRepository := repo\<rparr>)
   \<and> scan (JsString []) (s\<lparr>itemRepository := repo\<rparr>)
     = (\<lparr>data = Some False, error = Some InvalidInputError\<rparr>, s\<lparr>itemRepository := repo\<rparr>)"
  by (simp add: scan_def)

text \<open>
  C7 says that \<open>scan\<close> turns absent data into \<open>ItemNotFoundError\<close> and propagates an
  error the repository reports. The first part holds (\<open>scan_not_found\<close>), and an error
  object with own enumerable properties is propagated (\<open>scan_propagates_keyed_error\<close>).
  An error object without such properties, as \<^verbatim>\<open>new Error('connection lost')\<close> is, counts
  as empty for \<^verbatim>\<open>isEmpty\<close> and is not propagated: without data \<open>scan\<close> answers
  \<open>ItemNotFoundError\<close>, and with data it appends the item and answers \<open>data = true\<close>.
\<close>

theorem scan_loses_plain_error:
  "scan (JsString ''p01'') (newCheckout [] failingRepository)
     = (\<lparr>data = Some False, error = Some ItemNotFoundError\<rparr>, newCheckout [] failingRepository)
   \<and> scan (JsString ''p01'') (newCheckout [] inconsistentRepository)
     = (\<lparr>data = Some True, error = None\<rparr>,
        (newCheckout [] inconsistentRepository)\<lparr>items := [promotionRuleItem1]\<rparr>)"
  by (simp add: scan_def isEmpty_def newCheckout_def failingRepository_def
        inconsistentRepository_def plainError_def)

text \<open>
  C10: when \<open>scan\<close> returns \<open>data = false\<close>, the session, and so the cart, is exactly
  as before the call.
\<close>

theorem scan_atomic_on_error:
  "data (fst (scan k s)) = Some False \<Longrightarrow> snd (scan k s) = s"
  by (auto simp: scan_def Let_def split: if_splits option.splits)

theorem scan_atomic_on_error_witness:
  "data (fst (scan (JsString ''s02'') (scanAll [''t01''] checkoutService))) = Some False
   \<and> items (snd (scan (JsString ''s02'') (scanAll [''t01''] checkoutService)))
        = items (scanAll [''t01''] checkoutService)
   \<and> items (scanAll [''t01''] checkoutService) = [itemT01]
   \<and> data (fst (scan JsNull (scanAll [''t01''] checkoutService))) = Some False
   \<and> items (snd (scan JsNull (scanAll [''t01''] checkoutService)))
        = items (scanAll [''t01''] checkoutService)
   \<and> data (fst (scan (JsString ''t01'') (newCheckout [] (\<lambda>k. None)))) = Some False
   \<and> items (snd (scan (JsString ''t01'') (newCheckout [] (\<lambda>k. None))))
        = items (newCheckout [] (\<lambda>k. None))"
proof -
  let ?s = "scanAll [''t01''] checkoutService"
  let ?t = "newCheckout [] (\<lambda>k. None)"
  have h1: "data (fst (scan (JsString ''s02'') ?s)) = Some False" by code_simp
  have h2: "data (fst (scan JsNull ?s)) = Some False" by (simp add: scan_def)
  have h3: "data (fst (scan (JsString ''t01'') ?t)) = Some False"
    by (simp add: scan_def newCheckout_def)
  have c: "items ?s = [itemT01]" by code_simp
  from scan_atomic_on_error [OF h1] have a1: "items (snd (scan (JsString ''s02'') ?s)) = items ?s"
    by simp
  from scan_atomic_on_error [OF h2] have a2: "items (snd (scan JsNull ?s)) = items ?s"
    by simp
  from scan_atomic_on_error [OF h3] have a3: "items (snd (scan (JsString ''t01'') ?t)) = items ?t"
    by simp
  from h1 h2 h3 c a1 a2 a3 show ?thesis by blast
qed

subsection \<open>clear\<close>

text \<open>
  C9: \<open>clear\<close> resets the cart to the empty sequence and returns an output with
  \<open>data = true\<close> and no error; a second call in a row returns the same output and leaves
  the same state as the first, so the cart is empty after either call.
\<close>

theorem clear_resets_and_is_idempotent:
  "clear s = (\<lparr>data = Some True, error = None\<rparr>, s\<lparr>items := []\<rparr>)
   \<and> items (snd (clear s)) = []
   \<and> clear (snd (clear s)) = clear s"
  by (simp add: clear_def)

end
